theory Spec2Isabelle
  imports Main "HOL-Library.Sublist" "HOL-Library.AList"
begin

section \<open>Dependency scanner: classifier, graph builder and lock decoders\<close>

text \<open>
  A shallow embedding of the version 2.0.0 scanner in \<^verbatim>\<open>scripts/security-scan.js\<close>.
  JavaScript strings are modelled as \<^typ>\<open>string\<close>; arrays as lists; a JavaScript
  \<^verbatim>\<open>Map\<close> and the own properties of a JSON object as association lists in iteration
  order (\<^const>\<open>map_of\<close> is the lookup, \<^const>\<open>AList.update\<close> is \<^verbatim>\<open>Map.set\<close>: it
  overwrites in place or appends). An array the code reads through \<^verbatim>\<open>?.includes\<close>
  is the empty list when the field is absent; a string the code reads through
  \<^verbatim>\<open>||\<close> is an option, and the empty string is falsy as in the source.
  Properties inherited from \<^verbatim>\<open>Object.prototype\<close> are not part of the model.
\<close>

subsection \<open>Threat database, configuration and issues\<close>

record tier =
  tier_packages :: "string list"
  tier_details :: "(string \<times> string) list"

record protestwareDb =
  pw_high :: tier
  pw_medium :: tier
  pw_low :: tier

record knownMaliciousDb =
  confirmed :: "string list"
  typosquatting :: "string list"
  credentialTheft :: "string list"
  cryptoMalware :: "string list"
  protestware :: protestwareDb

record campaign =
  campaign_name :: "string option"
  campaign_severity :: "string option"
  campaign_description :: "string option"
  campaign_packages :: "string list"
  campaign_affectedVersions :: "(string \<times> string list) list"

record threatDb =
  trustedPackages :: "string list"
  knownMalicious :: knownMaliciousDb
  campaigns :: "(string \<times> campaign) list"

record scanConfig =
  config_ignore :: "string list"
  config_trustedPackages :: "string list"

text \<open>The value stored per package by \<^verbatim>\<open>mergeDependencies\<close> and by \<^verbatim>\<open>scan\<close>.\<close>

record 'v depInfo =
  version :: 'v
  isDirect :: bool
  isTransitive :: bool
  dependencyChain :: "string list"

text \<open>
  An issue object. The three lineage fields are options because the second campaign
  path of \<^verbatim>\<open>checkPackage\<close> builds its object without them.
\<close>

record issue =
  issue_package :: string
  issue_version :: string
  issue_isDirect :: "bool option"
  issue_isTransitive :: "bool option"
  issue_dependencyChain :: "string list option"
  issue_severity :: string
  issue_type :: string
  issue_reason :: string
  issue_action :: string
  issue_campaign :: "string option"
  issue_affectedVersions :: "string list option"
  issue_safeVersion :: bool

datatype checkResult = Ignored | Trusted | Issue issue | Clean

subsection \<open>Pattern matching and version cleaning\<close>

text \<open>\<^verbatim>\<open>a || b\<close> on an optional string: absent and empty are both falsy.\<close>

fun jsOr :: "string option \<Rightarrow> string \<Rightarrow> string" where
  "jsOr None d = d"
| "jsOr (Some s) d = (if s = [] then d else s)"

definition matchesPattern :: "string \<Rightarrow> string \<Rightarrow> bool" where
  "matchesPattern packageName pattern =
     (if suffix ''/*'' pattern
      then prefix (take (length pattern - 2) pattern @ ''/'') packageName
      else packageName = pattern)"

definition isTrusted :: "string \<Rightarrow> threatDb \<Rightarrow> scanConfig \<Rightarrow> bool" where
  "isTrusted packageName db config =
     list_ex (\<lambda>pattern. matchesPattern packageName pattern)
       (trustedPackages db @ config_trustedPackages config)"

definition isIgnored :: "string list \<Rightarrow> string \<Rightarrow> scanConfig \<Rightarrow> bool" where
  "isIgnored ignoreList packageName config =
     list_ex (\<lambda>pattern. matchesPattern packageName pattern)
       (ignoreList @ config_ignore config)"

text \<open>\<^verbatim>\<open>version.replace(/^[\^~>=<]*/g, '').split(' ')[0]\<close>\<close>

definition cleanVersion :: "string \<Rightarrow> string" where
  "cleanVersion v =
     takeWhile (\<lambda>c. c \<noteq> CHR '' '') (dropWhile (\<lambda>c. c \<in> set ''^~>=<'') v)"

fun isVersionAffected :: "string \<Rightarrow> string list option \<Rightarrow> bool" where
  "isVersionAffected v None = True"
| "isVersionAffected v (Some affected) =
     (if affected = [] then True else cleanVersion v \<in> set affected)"

subsection \<open>The classifier\<close>

definition baseIssue :: "string \<Rightarrow> string \<Rightarrow> string depInfo option \<Rightarrow> issue" where
  "baseIssue packageName v dep =
     \<lparr> issue_package = packageName,
       issue_version = v,
       issue_isDirect = Some (case dep of None \<Rightarrow> True | Some d \<Rightarrow> isDirect d),
       issue_isTransitive = Some (case dep of None \<Rightarrow> False | Some d \<Rightarrow> isTransitive d),
       issue_dependencyChain = Some (case dep of None \<Rightarrow> [] | Some d \<Rightarrow> dependencyChain d),
       issue_severity = [], issue_type = [], issue_reason = [], issue_action = [],
       issue_campaign = None, issue_affectedVersions = None, issue_safeVersion = False \<rparr>"

text \<open>The loop over \<^verbatim>\<open>Object.entries(campaigns)\<close>; the first return wins.\<close>

fun checkCampaigns ::
  "issue \<Rightarrow> string \<Rightarrow> string \<Rightarrow> (string \<times> campaign) list \<Rightarrow> checkResult" where
  "checkCampaigns base packageName v [] = Clean"
| "checkCampaigns base packageName v ((campaignId, c) # rest) =
     (let affected = map_of (campaign_affectedVersions c) packageName in
      if packageName \<in> set (campaign_packages c) then
        (if affected \<noteq> None \<and> \<not> isVersionAffected v affected then
           Issue (base\<lparr> issue_severity := ''low'',
                        issue_type := jsOr (campaign_name c) campaignId,
                        issue_campaign := Some campaignId,
                        issue_reason :=
                          ''Package was part of attack campaign but your version appears safe'',
                        issue_action := ''VERIFY - Ensure you are on a safe version'',
                        issue_affectedVersions := affected,
                        issue_safeVersion := True \<rparr>)
         else
           Issue (base\<lparr> issue_severity := jsOr (campaign_severity c) ''high'',
                        issue_type := jsOr (campaign_name c) campaignId,
                        issue_campaign := Some campaignId,
                        issue_reason :=
                          jsOr (campaign_description c) ''Part of known attack campaign'',
                        issue_action := ''CHECK VERSION AND UPDATE'',
                        issue_affectedVersions := affected \<rparr>))
      else if affected \<noteq> None \<and> isVersionAffected v affected then
        Issue \<lparr> issue_package = packageName,
                issue_version = v,
                issue_isDirect = None,
                issue_isTransitive = None,
                issue_dependencyChain = None,
                issue_severity = ''critical'',
                issue_type = jsOr (campaign_name c) campaignId,
                issue_reason = ''This specific version was compromised in the ''
                                 @ jsOr (campaign_name c) campaignId @ '' attack'',
                issue_action = ''UPDATE TO SAFE VERSION IMMEDIATELY'',
                issue_campaign = Some campaignId,
                issue_affectedVersions = affected,
                issue_safeVersion = False \<rparr>
      else checkCampaigns base packageName v rest)"

definition protestwareIssue ::
  "issue \<Rightarrow> string \<Rightarrow> tier \<Rightarrow> string \<Rightarrow> string \<Rightarrow> string \<Rightarrow> string \<Rightarrow> issue" where
  "protestwareIssue base packageName t sev ty dflt act =
     base\<lparr> issue_severity := sev,
           issue_type := ty,
           issue_reason := jsOr (map_of (tier_details t) packageName) dflt,
           issue_action := act \<rparr>"

definition checkPackage ::
  "string list \<Rightarrow> string \<Rightarrow> string \<Rightarrow> threatDb \<Rightarrow> string depInfo option \<Rightarrow> scanConfig
     \<Rightarrow> checkResult" where
  "checkPackage ignoreList packageName v db dep config =
     (if isIgnored ignoreList packageName config then Ignored
      else if isTrusted packageName db config then Trusted
      else
        let malicious = knownMalicious db;
            base = baseIssue packageName v dep;
            pw = protestware malicious
        in
        if packageName \<in> set (confirmed malicious) then
          Issue (base\<lparr> issue_severity := ''critical'',
                       issue_type := ''Confirmed Malicious'',
                       issue_reason := ''This package has been confirmed as malicious'',
                       issue_action := ''REMOVE IMMEDIATELY'' \<rparr>)
        else if packageName \<in> set (typosquatting malicious) then
          Issue (base\<lparr> issue_severity := ''critical'',
                       issue_type := ''Typosquatting'',
                       issue_reason :=
                         ''This package name is a typosquatting variant of a popular package'',
                       issue_action :=
                         ''REMOVE IMMEDIATELY - Check you have the correct package name'' \<rparr>)
        else if packageName \<in> set (credentialTheft malicious) then
          Issue (base\<lparr> issue_severity := ''critical'',
                       issue_type := ''Credential Theft'',
                       issue_reason := ''This package has been found to steal credentials'',
                       issue_action := ''REMOVE IMMEDIATELY - Rotate all credentials'' \<rparr>)
        else if packageName \<in> set (cryptoMalware malicious) then
          Issue (base\<lparr> issue_severity := ''critical'',
                       issue_type := ''Crypto Malware'',
                       issue_reason :=
                         ''This package contains cryptocurrency mining or wallet-stealing malware'',
                       issue_action :=
                         ''REMOVE IMMEDIATELY - Check for unauthorized transactions'' \<rparr>)
        else if packageName \<in> set (tier_packages (pw_high pw)) then
          Issue (protestwareIssue base packageName (pw_high pw) ''high''
                   ''Protestware (Destructive)'' ''Destructive protestware''
                   ''REMOVE - Can delete or corrupt files on affected systems'')
        else if packageName \<in> set (tier_packages (pw_medium pw)) then
          Issue (protestwareIssue base packageName (pw_medium pw) ''medium''
                   ''Protestware (DoS)'' ''DoS protestware''
                   ''REMOVE - Causes application hang or crash. Use alternative package.'')
        else if packageName \<in> set (tier_packages (pw_low pw)) then
          Issue (protestwareIssue base packageName (pw_low pw) ''low''
                   ''Protestware (Message)'' ''Protestware with political message''
                   ''OPTIONAL - No malicious behavior, contains political message only'')
        else checkCampaigns base packageName v (campaigns db))"

subsection \<open>Dependency graph builder\<close>

text \<open>The value a lock decoder stores per package name.\<close>

record 'v lockInfo =
  lock_version :: 'v
  lock_isTransitive :: bool
  lock_dependencyChain :: "string list"

definition directNode :: "'v \<Rightarrow> 'v depInfo" where
  "directNode v = \<lparr> version = v, isDirect = True, isTransitive = False, dependencyChain = [] \<rparr>"

definition mergeLockEntry ::
  "string \<times> 'v lockInfo \<Rightarrow> (string \<times> 'v depInfo) list \<Rightarrow> (string \<times> 'v depInfo) list" where
  "mergeLockEntry e merged =
     (case e of (name, info) \<Rightarrow>
        (case map_of merged name of
           None \<Rightarrow>
             AList.update name
               \<lparr> version = lock_version info, isDirect = False, isTransitive = True,
                 dependencyChain = lock_dependencyChain info \<rparr> merged
         | Some existing \<Rightarrow>
             AList.update name (existing\<lparr> version := lock_version info \<rparr>) merged))"

text \<open>The first loop of \<^verbatim>\<open>mergeDependencies\<close>: the direct dependencies.\<close>

definition directSeed :: "(string \<times> 'v) list \<Rightarrow> (string \<times> 'v depInfo) list" where
  "directSeed directDeps =
     fold (\<lambda>(name, v) merged. AList.update name (directNode v) merged) directDeps []"

definition mergeDependencies ::
  "(string \<times> 'v) list \<Rightarrow> (string \<times> 'v lockInfo) list \<Rightarrow> (string \<times> 'v depInfo) list" where
  "mergeDependencies directDeps lockPackages =
     fold mergeLockEntry lockPackages (directSeed directDeps)"

subsection \<open>The scan: building the node set, classifying, reporting\<close>

record packageJson =
  pj_dependencies :: "(string \<times> string) list"
  pj_devDependencies :: "(string \<times> string) list"
  pj_peerDependencies :: "(string \<times> string) list"
  pj_optionalDependencies :: "(string \<times> string) list"

text \<open>The object spread \<^verbatim>\<open>{...a, ...b, ...c, ...d}\<close>: a later value overwrites in place.\<close>

definition directDependencies :: "packageJson \<Rightarrow> (string \<times> string) list" where
  "directDependencies pj =
     fold (\<lambda>(name, v) acc. AList.update name v acc)
       (pj_dependencies pj @ pj_devDependencies pj @ pj_peerDependencies pj
          @ pj_optionalDependencies pj) []"












subsection \<open>String primitives of the decoders\<close>

text \<open>
  Characters stand for UTF-16 code units below 256. \<open>isSpace\<close> is the class \<^verbatim>\<open>\s\<close>
  there, which is also what \<^verbatim>\<open>trim()\<close> strips.
\<close>

definition isSpace :: "char \<Rightarrow> bool" where
  "isSpace c \<longleftrightarrow>
     c = CHR 0x09 \<or> c = CHR 0x0A \<or> c = CHR 0x0B \<or> c = CHR 0x0C \<or> c = CHR 0x0D
       \<or> c = CHR 0x20 \<or> c = CHR 0xA0"

definition isQuote :: "char \<Rightarrow> bool" where
  "isQuote c \<longleftrightarrow> c = CHR 0x27 \<or> c = CHR 0x22"

definition trim :: "string \<Rightarrow> string" where
  "trim s = rev (dropWhile isSpace (rev (dropWhile isSpace s)))"

text \<open>\<^verbatim>\<open>s.split(sep)\<close> for a non-empty separator; \<open>acc\<close> is the current piece, reversed.\<close>

function splitStr :: "string \<Rightarrow> string \<Rightarrow> string \<Rightarrow> string list" where
  "splitStr sep acc [] = [rev acc]"
| "splitStr sep acc (c # cs) =
     (if sep \<noteq> [] \<and> prefix sep (c # cs)
      then rev acc # splitStr sep [] (drop (length sep) (c # cs))
      else splitStr sep (c # acc) cs)"
  by pat_completeness auto
termination
  by (relation "measure (\<lambda>(sep, acc, s). length s)") auto

definition splitLines :: "string \<Rightarrow> string list" where
  "splitLines content = splitStr [CHR 0x0A] [] content"

subsection \<open>Regular expressions\<close>

text \<open>
  The regular expressions of the decoders use literals, character classes, greedy
  \<^verbatim>\<open>?\<close>, \<^verbatim>\<open>+\<close> and \<^verbatim>\<open>*\<close> (the last two on single classes only), capture groups that
  are not nested, and \<^verbatim>\<open>$\<close>. \<open>rxm r (s, caps)\<close> lists, in the order in which a
  backtracking matcher tries them, the ways \<open>r\<close> can match a prefix of \<open>s\<close>: each
  with the rest of the input and the captures so far.
\<close>

datatype rx =
    Chr char
  | Str string
  | One "char \<Rightarrow> bool"
  | Many0 "char \<Rightarrow> bool"
  | Many1 "char \<Rightarrow> bool"
  | Opt rx
  | Seq rx rx
  | Cap rx
  | Eol
  | Eps

fun seqs :: "rx list \<Rightarrow> rx" where
  "seqs [] = Eps"
| "seqs [r] = r"
| "seqs (r # rs) = Seq r (seqs rs)"

fun rxm :: "rx \<Rightarrow> string \<times> string list \<Rightarrow> (string \<times> string list) list" where
  "rxm (Chr c) (s, caps) = (case s of [] \<Rightarrow> [] | x # r \<Rightarrow> if x = c then [(r, caps)] else [])"
| "rxm (Str w) (s, caps) = (if prefix w s then [(drop (length w) s, caps)] else [])"
| "rxm (One P) (s, caps) = (case s of [] \<Rightarrow> [] | x # r \<Rightarrow> if P x then [(r, caps)] else [])"
| "rxm (Many0 P) (s, caps) =
     map (\<lambda>k. (drop k s, caps)) (rev [0 ..< Suc (length (takeWhile P s))])"
| "rxm (Many1 P) (s, caps) =
     map (\<lambda>k. (drop k s, caps)) (rev [1 ..< Suc (length (takeWhile P s))])"
| "rxm (Opt r) x = rxm r x @ [x]"
| "rxm (Seq r1 r2) x = concat (map (rxm r2) (rxm r1 x))"
| "rxm (Cap r) (s, caps) =
     map (\<lambda>(s', caps'). (s', caps' @ [take (length s - length s') s])) (rxm r (s, caps))"
| "rxm Eol (s, caps) = (if s = [] then [(s, caps)] else [])"
| "rxm Eps x = [x]"

text \<open>The first success, the one a backtracking matcher returns.\<close>

definition rxFirst :: "rx \<Rightarrow> string \<times> string list \<Rightarrow> (string \<times> string list) option" where
  "rxFirst r x = (case rxm r x of [] \<Rightarrow> None | y # _ \<Rightarrow> Some y)"

text \<open>A match anchored at the start (\<^verbatim>\<open>^\<close>): the captures of the first success.\<close>

definition rxStart :: "rx \<Rightarrow> string \<Rightarrow> string list option" where
  "rxStart r s = map_option snd (rxFirst r (s, []))"

text \<open>
  An unanchored match: the leftmost start position that succeeds, with the input left
  after the match and the captures.
\<close>

fun rxSearch :: "rx \<Rightarrow> string \<Rightarrow> (string \<times> string list) option" where
  "rxSearch r [] = rxFirst r ([], [])"
| "rxSearch r (c # cs) =
     (case rxFirst r (c # cs, []) of None \<Rightarrow> rxSearch r cs | Some x \<Rightarrow> Some x)"

text \<open>
  \<^verbatim>\<open>matchAll\<close> with a global expression: the captures of the successive matches, each
  search starting where the previous match ended (one unit further after an empty match).
\<close>

function rxAll :: "rx \<Rightarrow> string \<Rightarrow> string list list" where
  "rxAll r s =
     (case rxSearch r s of
        None \<Rightarrow> []
      | Some (rest, caps) \<Rightarrow>
          if length rest < length s then caps # rxAll r rest
          else (case s of [] \<Rightarrow> [caps] | _ # t \<Rightarrow> caps # rxAll r t))"
  by pat_completeness auto
termination
  by (relation "measure (\<lambda>(r, s). length s)") auto

declare rxAll.simps [simp del]

subsection \<open>The pnpm decoder\<close>

text \<open>\<^verbatim>\<open>/^['"]?\/?((?:@[^@/]+\/)?[^@:]+)@([^:']+)['"]?:?\s*$/\<close>\<close>

definition pnpmPackageRx :: rx where
  "pnpmPackageRx =
     seqs [Opt (One isQuote), Opt (Chr CHR ''/''),
           Cap (seqs [Opt (seqs [Chr CHR ''@'',
                                 Many1 (\<lambda>c. c \<noteq> CHR ''@'' \<and> c \<noteq> CHR ''/''),
                                 Chr CHR ''/'']),
                      Many1 (\<lambda>c. c \<noteq> CHR ''@'' \<and> c \<noteq> CHR '':'')]),
           Chr CHR ''@'',
           Cap (Many1 (\<lambda>c. c \<noteq> CHR '':'' \<and> c \<noteq> CHR 0x27)),
           Opt (One isQuote), Opt (Chr CHR '':''), Many0 isSpace, Eol]"

text \<open>\<^verbatim>\<open>/^['"]?((?:@[^@/]+\/)?[^@(]+)@([^:'(]+)/\<close>\<close>

definition pnpmSnapshotRx :: rx where
  "pnpmSnapshotRx =
     seqs [Opt (One isQuote),
           Cap (seqs [Opt (seqs [Chr CHR ''@'',
                                 Many1 (\<lambda>c. c \<noteq> CHR ''@'' \<and> c \<noteq> CHR ''/''),
                                 Chr CHR ''/'']),
                      Many1 (\<lambda>c. c \<noteq> CHR ''@'' \<and> c \<noteq> CHR ''('')]),
           Chr CHR ''@'',
           Cap (Many1 (\<lambda>c. c \<noteq> CHR '':'' \<and> c \<noteq> CHR 0x27 \<and> c \<noteq> CHR ''(''))]"

definition flatEntry :: "string \<Rightarrow> string lockInfo" where
  "flatEntry v = \<lparr> lock_version = v, lock_isTransitive = True, lock_dependencyChain = [] \<rparr>"

text \<open>\<^verbatim>\<open>if (!packages.has(name)) packages.set(name, info)\<close>\<close>

definition setIfAbsent ::
  "string \<Rightarrow> 'v lockInfo \<Rightarrow> (string \<times> 'v lockInfo) list \<Rightarrow> (string \<times> 'v lockInfo) list" where
  "setIfAbsent name info packages =
     (if map_of packages name = None then AList.update name info packages else packages)"

text \<open>\<^verbatim>\<open>version.replace(/['"]/g, '')\<close>\<close>

definition stripQuotes :: "string \<Rightarrow> string" where
  "stripQuotes v = filter (\<lambda>c. \<not> isQuote c) v"

text \<open>The body of \<^verbatim>\<open>if (inPackages) { ... }\<close> for one trimmed line.\<close>

definition pnpmEntry ::
  "string \<Rightarrow> (string \<times> string lockInfo) list \<Rightarrow> (string \<times> string lockInfo) list" where
  "pnpmEntry trimmed packages =
     (case rxStart pnpmPackageRx trimmed of
        Some (name # v # _) \<Rightarrow> setIfAbsent name (flatEntry (stripQuotes v)) packages
      | _ \<Rightarrow>
          (case rxStart pnpmSnapshotRx trimmed of
             Some (name # v # _) \<Rightarrow>
               if name \<noteq> [] \<and> v \<noteq> [] then setIfAbsent name (flatEntry (stripQuotes v)) packages
               else packages
           | _ \<Rightarrow> packages))"

text \<open>One round of the loop over the lines; the state is \<^verbatim>\<open>inPackages\<close> and the map.\<close>

definition pnpmLine ::
  "string \<Rightarrow> bool \<times> (string \<times> string lockInfo) list
     \<Rightarrow> bool \<times> (string \<times> string lockInfo) list" where
  "pnpmLine line st =
     (case st of (inPackages, packages) \<Rightarrow>
        let trimmed = trim line in
        if trimmed = [] \<or> prefix ''#'' trimmed then (inPackages, packages)
        else if trimmed = ''packages:'' then (True, packages)
        else if inPackages \<and> \<not> prefix '' '' line \<and> \<not> prefix [CHR 0x09] line \<and> trimmed \<noteq> []
                \<and> \<not> prefix ''/'' trimmed \<and> \<not> prefix [CHR 0x27] trimmed
          then (False, packages)
        else if inPackages then (inPackages, pnpmEntry trimmed packages)
        else (inPackages, packages))"

definition parsePnpmLock :: "string \<Rightarrow> (string \<times> string lockInfo) list" where
  "parsePnpmLock content = snd (fold pnpmLine (splitLines content) (False, []))"

subsection \<open>The yarn decoder\<close>

text \<open>\<^verbatim>\<open>/["']?((?:@[^@,\s]+\/)?[^@,\s"']+)@[^,:\s"']+["']?/g\<close>\<close>

definition yarnHeaderRx :: rx where
  "yarnHeaderRx =
     seqs [Opt (One isQuote),
           Cap (seqs [Opt (seqs [Chr CHR ''@'',
                                 Many1 (\<lambda>c. c \<noteq> CHR ''@'' \<and> c \<noteq> CHR '','' \<and> \<not> isSpace c),
                                 Chr CHR ''/'']),
                      Many1 (\<lambda>c. c \<noteq> CHR ''@'' \<and> c \<noteq> CHR '','' \<and> \<not> isSpace c
                                   \<and> \<not> isQuote c)]),
           Chr CHR ''@'',
           Many1 (\<lambda>c. c \<noteq> CHR '','' \<and> c \<noteq> CHR '':'' \<and> \<not> isSpace c \<and> \<not> isQuote c),
           Opt (One isQuote)]"

text \<open>\<^verbatim>\<open>/version\s+["']?([^"'\s]+)["']?/\<close>\<close>

definition yarnVersionRx :: rx where
  "yarnVersionRx =
     seqs [Str ''version'', Many1 isSpace, Opt (One isQuote),
           Cap (Many1 (\<lambda>c. \<not> isQuote c \<and> \<not> isSpace c)),
           Opt (One isQuote)]"

text \<open>The names pushed for a header line: \<^verbatim>\<open>if (match[1]) currentPackages.push(match[1])\<close>.\<close>

definition yarnHeaderNames :: "string \<Rightarrow> string list" where
  "yarnHeaderNames trimmed =
     concat (map (\<lambda>caps. case caps of name # _ \<Rightarrow> (if name \<noteq> [] then [name] else []) | [] \<Rightarrow> [])
                 (rxAll yarnHeaderRx trimmed))"

text \<open>One round of the loop; the state is \<^verbatim>\<open>currentPackages\<close> and the map.\<close>

definition yarnLine ::
  "string \<Rightarrow> string list \<times> (string \<times> string lockInfo) list
     \<Rightarrow> string list \<times> (string \<times> string lockInfo) list" where
  "yarnLine line st =
     (case st of (currentPackages, packages) \<Rightarrow>
        let trimmed = trim line in
        if trimmed = [] \<or> prefix ''#'' trimmed then (currentPackages, packages)
        else
          let current = (if \<not> prefix '' '' line \<and> \<not> prefix [CHR 0x09] line
                         then yarnHeaderNames trimmed else currentPackages)
          in if prefix ''  version'' line \<and> length current > 0 then
               (case rxSearch yarnVersionRx trimmed of
                  Some (_, currentVersion # _) \<Rightarrow>
                    (current,
                     fold (\<lambda>pkgName acc. setIfAbsent pkgName (flatEntry currentVersion) acc)
                       current packages)
                | _ \<Rightarrow> (current, packages))
             else (current, packages))"

definition parseYarnLock :: "string \<Rightarrow> (string \<times> string lockInfo) list" where
  "parseYarnLock content = snd (fold yarnLine (splitLines content) ([], []))"

subsection \<open>The npm decoder\<close>

text \<open>
  The value of \<^verbatim>\<open>JSON.parse\<close>. An object is the list of its own properties in
  \<^verbatim>\<open>Object.entries\<close> order, with distinct keys. Of a number only the truthiness is read.
\<close>

datatype json =
    JNull
  | JBool bool
  | JNum int
  | JStr string
  | JArr "json list"
  | JObj "(string \<times> json) list"

fun truthy :: "json \<Rightarrow> bool" where
  "truthy JNull = False"
| "truthy (JBool b) = b"
| "truthy (JNum n) = (n \<noteq> 0)"
| "truthy (JStr s) = (s \<noteq> [])"
| "truthy (JArr xs) = True"
| "truthy (JObj kvs) = True"

text \<open>
  Reading one of the properties \<^verbatim>\<open>packages\<close>, \<^verbatim>\<open>dependencies\<close>, \<^verbatim>\<open>version\<close>,
  \<^verbatim>\<open>dev\<close>, \<^verbatim>\<open>peer\<close> of a value other than \<^verbatim>\<open>null\<close>: \<open>None\<close> is \<^verbatim>\<open>undefined\<close>.
\<close>

fun getProp :: "json \<Rightarrow> string \<Rightarrow> json option" where
  "getProp (JObj kvs) k = map_of kvs k"
| "getProp j k = None"

definition truthyProp :: "json \<Rightarrow> string \<Rightarrow> bool" where
  "truthyProp j k = (case getProp j k of None \<Rightarrow> False | Some v \<Rightarrow> truthy v)"

text \<open>\<^verbatim>\<open>x || 'unknown'\<close>\<close>

definition orUnknown :: "json option \<Rightarrow> json" where
  "orUnknown v =
     (case v of None \<Rightarrow> JStr ''unknown'' | Some x \<Rightarrow> if truthy x then x else JStr ''unknown'')"

function decimal :: "nat \<Rightarrow> string" where
  "decimal n =
     (if n < 10 then [char_of (48 + n)]
      else decimal (n div 10) @ [char_of (48 + n mod 10)])"
  by pat_completeness auto
termination
  by (relation "measure (\<lambda>n. n)") auto

declare decimal.simps [simp del]

text \<open>\<^verbatim>\<open>Object.entries\<close> of a truthy value: arrays and strings have index keys.\<close>

fun entries :: "json \<Rightarrow> (string \<times> json) list" where
  "entries (JObj kvs) = kvs"
| "entries (JArr xs) = zip (map decimal [0 ..< length xs]) xs"
| "entries (JStr s) = zip (map decimal [0 ..< length s]) (map (\<lambda>c. JStr [c]) s)"
| "entries j = []"

text \<open>\<^verbatim>\<open>/node_modules\/((?:@[^/]+\/)?[^/]+)$/\<close>\<close>

definition npmPathRx :: rx where
  "npmPathRx =
     seqs [Str ''node_modules/'',
           Cap (seqs [Opt (seqs [Chr CHR ''@'', Many1 (\<lambda>c. c \<noteq> CHR ''/''), Chr CHR ''/'']),
                      Many1 (\<lambda>c. c \<noteq> CHR ''/'')]),
           Eol]"

definition extractDependencyChain :: "string \<Rightarrow> string list" where
  "extractDependencyChain pkgPath =
     butlast (filter (\<lambda>p. p \<noteq> [] \<and> p \<noteq> ''node_modules'')
                (splitStr ''/node_modules/'' [] pkgPath))"

text \<open>
  The loop over \<^verbatim>\<open>Object.entries(lockfile.packages)\<close>. The Boolean of the result says
  that an exception is on its way to the \<^verbatim>\<open>catch\<close> of \<^verbatim>\<open>parseNpmLock\<close>: reading
  \<^verbatim>\<open>pkgInfo.version\<close> of \<^verbatim>\<open>null\<close> raises a TypeError.
\<close>

fun npmPackages ::
  "(string \<times> json) list \<Rightarrow> (string \<times> json lockInfo) list
     \<Rightarrow> bool \<times> (string \<times> json lockInfo) list" where
  "npmPackages [] packages = (False, packages)"
| "npmPackages ((pkgPath, pkgInfo) # rest) packages =
     (if pkgPath = [] then npmPackages rest packages
      else
        (case rxSearch npmPathRx pkgPath of
           Some (_, name # _) \<Rightarrow>
             if pkgInfo = JNull then (True, packages)
             else npmPackages rest
                    (AList.update name
                       \<lparr> lock_version = orUnknown (getProp pkgInfo ''version''),
                         lock_isTransitive =
                           (\<not> truthyProp pkgInfo ''dev'' \<and> \<not> truthyProp pkgInfo ''peer''),
                         lock_dependencyChain = extractDependencyChain pkgPath \<rparr>
                       packages)
         | _ \<Rightarrow> npmPackages rest packages))"

text \<open>The nesting depth of a value, the measure of the recursive descent below.\<close>

fun jdepth :: "json \<Rightarrow> nat" where
  "jdepth (JObj kvs) = Suc (foldr max (map (\<lambda>kv. jdepth (snd kv)) kvs) 0)"
| "jdepth (JArr xs) = Suc (foldr max (map jdepth xs) 0)"
| "jdepth j = 0"

text \<open>
  \<^verbatim>\<open>parseNpmDependencies(deps, packages, chain)\<close>, on \<^verbatim>\<open>Object.entries(deps)\<close>.
\<close>

function parseNpmDependencies ::
  "(string \<times> json) list \<Rightarrow> (string \<times> json lockInfo) list \<Rightarrow> string list
     \<Rightarrow> bool \<times> (string \<times> json lockInfo) list" where
  "parseNpmDependencies [] packages chain = (False, packages)"
| "parseNpmDependencies ((name, info) # rest) packages chain =
     (if info = JNull then (True, packages)
      else
        let packages1 =
              AList.update name
                \<lparr> lock_version = orUnknown (getProp info ''version''),
                  lock_isTransitive = (length chain > 0),
                  lock_dependencyChain = chain \<rparr> packages
        in (case getProp info ''dependencies'' of
              Some d \<Rightarrow>
                if truthy d then
                  (case parseNpmDependencies (entries d) packages1 (chain @ [name]) of
                     (threw, packages2) \<Rightarrow>
                       if threw then (True, packages2)
                       else parseNpmDependencies rest packages2 chain)
                else parseNpmDependencies rest packages1 chain
            | None \<Rightarrow> parseNpmDependencies rest packages1 chain))"
  by pat_completeness auto
termination
proof -
  have le_max: "f x \<le> foldr max (map f xs) 0" if "x \<in> set xs"
    for f :: "'a \<Rightarrow> nat" and x xs
    using that by (induction xs) auto
  have max_zero: "foldr max (map f xs) 0 = 0" if "\<forall>x \<in> set xs. f x = 0"
    for f :: "'a \<Rightarrow> nat" and xs
    using that by (induction xs) auto
  have snd_zip: "map (\<lambda>kv. jdepth (snd kv)) (zip ks xs) = map jdepth xs"
    if "length ks = length xs" for ks :: "string list" and xs
    using that by (induction ks xs rule: list_induct2) auto
  have entries_depth: "foldr max (map (\<lambda>kv. jdepth (snd kv)) (entries d)) 0 \<le> jdepth d" for d
  proof (cases d)
    case (JStr s)
    have "\<forall>kv \<in> set (entries d). jdepth (snd kv) = 0"
      unfolding JStr by (auto dest!: set_zip_rightD)
    then show ?thesis by (simp add: max_zero)
  qed (simp_all add: snd_zip)
  have prop_depth: "jdepth d < jdepth info" if "getProp info k = Some d" for info k d
  proof (cases info)
    case (JObj kvs)
    with that have "(k, d) \<in> set kvs" by (auto dest: map_of_SomeD)
    from le_max[OF this, of "\<lambda>kv. jdepth (snd kv)"] show ?thesis
      unfolding JObj by simp
  qed (use that in simp_all)
  have step: "foldr max (map (\<lambda>kv. jdepth (snd kv)) (entries d)) 0 < jdepth info"
    if "getProp info k = Some d" for info k d
    using entries_depth[of d] prop_depth[OF that] by simp
  show ?thesis
    by (relation "measures [\<lambda>(es, p, c). foldr max (map (\<lambda>kv. jdepth (snd kv)) es) 0,
                            \<lambda>(es, p, c). length es]")
       (auto dest: step simp: less_max_iff_disj)
qed

text \<open>
  The body of the \<^verbatim>\<open>try\<close> block, from the value of \<^verbatim>\<open>JSON.parse(content)\<close> on: reading
  \<^verbatim>\<open>lockfile.packages\<close> of \<^verbatim>\<open>null\<close> raises a TypeError.
\<close>

definition npmTryBody :: "json \<Rightarrow> bool \<times> (string \<times> json lockInfo) list" where
  "npmTryBody lockfile =
     (if lockfile = JNull then (True, [])
      else
        (case (if truthyProp lockfile ''packages''
               then (case getProp lockfile ''packages'' of
                       Some p \<Rightarrow> npmPackages (entries p) []
                     | None \<Rightarrow> (False, []))
               else (False, [])) of
           (threw, packages) \<Rightarrow>
             if threw then (True, packages)
             else if truthyProp lockfile ''dependencies''
               then (case getProp lockfile ''dependencies'' of
                       Some d \<Rightarrow> parseNpmDependencies (entries d) packages []
                     | None \<Rightarrow> (False, packages))
             else (False, packages)))"

text \<open>
  \<^verbatim>\<open>parseNpmLock\<close>. The argument is the outcome of \<^verbatim>\<open>JSON.parse(content)\<close>, \<open>None\<close>
  when it raises a SyntaxError; the \<^verbatim>\<open>catch\<close> block keeps the entries stored so far.
\<close>

definition parseNpmLock :: "json option \<Rightarrow> (string \<times> json lockInfo) list" where
  "parseNpmLock parsed =
     (case parsed of None \<Rightarrow> [] | Some lockfile \<Rightarrow> snd (npmTryBody lockfile))"

subsection \<open>Well-formed names and versions\<close>



definition scoped :: "string \<Rightarrow> string \<Rightarrow> string" where
  "scoped scope name = CHR ''@'' # scope @ CHR ''/'' # name"

subsection \<open>Example data\<close>

definition noTier :: tier where
  "noTier = \<lparr> tier_packages = [], tier_details = [] \<rparr>"

definition noMalicious :: knownMaliciousDb where
  "noMalicious =
     \<lparr> confirmed = [], typosquatting = [], credentialTheft = [], cryptoMalware = [],
       protestware = \<lparr> pw_high = noTier, pw_medium = noTier, pw_low = noTier \<rparr> \<rparr>"

definition noConfig :: scanConfig where
  "noConfig = \<lparr> config_ignore = [], config_trustedPackages = [] \<rparr>"

text \<open>A trusted namespace whose member is also listed as confirmed malicious.\<close>

definition trustedScopeDb :: threatDb where
  "trustedScopeDb =
     \<lparr> trustedPackages = [''@scope/*''],
       knownMalicious = noMalicious\<lparr> confirmed := [''@scope/anything''] \<rparr>,
       campaigns = [] \<rparr>"

definition confirmedDb :: threatDb where
  "confirmedDb =
     \<lparr> trustedPackages = [],
       knownMalicious = noMalicious\<lparr> confirmed := [''dep-b''] \<rparr>,
       campaigns = [] \<rparr>"







text \<open>The manifest and lock entries of the end-to-end scenario.\<close>

definition scenarioDirect :: "(string \<times> string) list" where
  "scenarioDirect = [(''dep-a'', ''^1.0.0'')]"

definition scenarioLock :: "(string \<times> string lockInfo) list" where
  "scenarioLock =
     [(''dep-a'', \<lparr> lock_version = ''1.2.0'', lock_isTransitive = True,
                     lock_dependencyChain = [] \<rparr>),
      (''dep-b'', \<lparr> lock_version = ''2.0.0'', lock_isTransitive = True,
                     lock_dependencyChain = [''dep-a''] \<rparr>)]"



text \<open>A \<^verbatim>\<open>package-lock.json\<close> (version 2 or 3) with one nested path key.\<close>

definition nestedNpmLock :: json where
  "nestedNpmLock =
     JObj [(''lockfileVersion'', JNum 3),
           (''packages'',
            JObj [(''node_modules/a/node_modules/b'', JObj [(''version'', JStr ''2.0.0'')])])]"

text \<open>Files without a \<^verbatim>\<open>packages:\<close> line, without a version line, without either key.\<close>

definition pnpmNoSection :: string where
  "pnpmNoSection = ''lockfileVersion: 6'' @ [CHR 0x0A] @ ''/foo@1.0.0:'' @ [CHR 0x0A]"

definition yarnNoVersion :: string where
  "yarnNoVersion = ''# yarn lockfile v1'' @ [CHR 0x0A] @ ''foo@^1.0.0:'' @ [CHR 0x0A]
                     @ ''  resolved x'' @ [CHR 0x0A]"

definition npmNoKeys :: json where
  "npmNoKeys = JObj [(''name'', JStr ''app''), (''lockfileVersion'', JNum 3)]"




subsection \<open>Well-formed severities\<close>



section \<open>Verified properties\<close>

subsection \<open>Patterns\<close>

lemma matchesPattern_iff:
  "matchesPattern n p \<longleftrightarrow>
     n = p \<or> (\<exists>scope rest. p = scope @ ''/*'' \<and> n = scope @ ''/'' @ rest)"
  by (auto simp: matchesPattern_def suffix_def prefix_def)

subsection \<open>Classifier\<close>

lemma checkCampaigns_lineage:
  "checkCampaigns base n v cs = Issue i \<Longrightarrow>
     (issue_isDirect i = issue_isDirect base \<and> issue_isTransitive i = issue_isTransitive base
        \<and> issue_dependencyChain i = issue_dependencyChain base)
     \<or> (issue_isDirect i = None \<and> issue_isTransitive i = None \<and> issue_dependencyChain i = None
        \<and> issue_action i = ''UPDATE TO SAFE VERSION IMMEDIATELY'')"
proof (induction cs)
  case Nil
  then show ?case by simp
next
  case (Cons a cs)
  obtain cid c where a: "a = (cid, c)" by (cases a)
  from Cons show ?case unfolding a
    by (auto simp: Let_def split: if_splits)
qed




text \<open>
  C1. A name that no ignore pattern matches and that a trusted pattern of the database
  matches (the name itself, or a namespace wildcard ending in \<^verbatim>\<open>/*\<close>, see
  \<open>matchesPattern_iff\<close>) is classified Trusted, hence never as an issue, whatever the
  deny lists, the protestware tiers and the campaigns contain.
\<close>

theorem trust_precedence:
  assumes "\<not> isIgnored ignoreList packageName config"
    and "pattern \<in> set (trustedPackages db)"
    and "matchesPattern packageName pattern"
  shows "checkPackage ignoreList packageName v db dep config = Trusted
         \<and> (\<forall>i. checkPackage ignoreList packageName v db dep config \<noteq> Issue i)"
proof -
  have "isTrusted packageName db config"
    using assms(2,3) by (auto simp: isTrusted_def list_ex_iff)
  with assms(1) show ?thesis by (simp add: checkPackage_def)
qed

theorem trust_precedence_witness:
  "\<not> isIgnored [] ''@scope/anything'' noConfig
   \<and> ''@scope/*'' \<in> set (trustedPackages trustedScopeDb)
   \<and> matchesPattern ''@scope/anything'' ''@scope/*''
   \<and> ''@scope/anything'' \<in> set (confirmed (knownMalicious trustedScopeDb))
   \<and> checkPackage [] ''@scope/anything'' ''1.0.0'' trustedScopeDb None noConfig = Trusted"
proof -
  have h1: "\<not> isIgnored [] ''@scope/anything'' noConfig"
    by (simp add: isIgnored_def noConfig_def)
  have h2: "''@scope/*'' \<in> set (trustedPackages trustedScopeDb)"
    by (simp add: trustedScopeDb_def)
  have h3: "matchesPattern ''@scope/anything'' ''@scope/*''"
    by (simp add: matchesPattern_def suffix_def)
  have h4: "''@scope/anything'' \<in> set (confirmed (knownMalicious trustedScopeDb))"
    by (simp add: trustedScopeDb_def)
  from trust_precedence[OF h1 h2 h3] h1 h2 h3 h4 show ?thesis by blast
qed

text \<open>
  C9. A name in \<^verbatim>\<open>knownMalicious.confirmed\<close> that no ignore and no trusted pattern
  matches is classified as an issue of severity critical, for every version string.
  The issue is a function of the name, the version and the lineage alone, so two
  classifications of one node return the same issue.
\<close>

theorem confirmed_critical:
  assumes "\<not> isIgnored ignoreList packageName config"
    and "\<not> isTrusted packageName db config"
    and "packageName \<in> set (confirmed (knownMalicious db))"
  shows "checkPackage ignoreList packageName v db dep config =
           Issue ((baseIssue packageName v dep)
                    \<lparr> issue_severity := ''critical'',
                      issue_type := ''Confirmed Malicious'',
                      issue_reason := ''This package has been confirmed as malicious'',
                      issue_action := ''REMOVE IMMEDIATELY'' \<rparr>)"
  using assms by (simp add: checkPackage_def Let_def)

theorem confirmed_critical_witness:
  "\<not> isIgnored [] ''dep-b'' noConfig
   \<and> \<not> isTrusted ''dep-b'' confirmedDb noConfig
   \<and> ''dep-b'' \<in> set (confirmed (knownMalicious confirmedDb))
   \<and> (\<exists>i. checkPackage [] ''dep-b'' ''2.0.0'' confirmedDb None noConfig = Issue i
          \<and> issue_severity i = ''critical'')"
proof -
  have h1: "\<not> isIgnored [] ''dep-b'' noConfig"
    by (simp add: isIgnored_def noConfig_def)
  have h2: "\<not> isTrusted ''dep-b'' confirmedDb noConfig"
    by (simp add: isTrusted_def noConfig_def confirmedDb_def)
  have h3: "''dep-b'' \<in> set (confirmed (knownMalicious confirmedDb))"
    by (simp add: confirmedDb_def)
  from confirmed_critical[OF h1 h2 h3, of "''2.0.0''" None] h1 h2 h3 show ?thesis by simp
qed

text \<open>
  C10. Without dependency metadata, every issue built on \<^verbatim>\<open>baseIssue\<close> reports a direct
  dependency: isDirect true, isTransitive false, an empty chain. The only other issue
  the classifier can return is the one of the second campaign path, which carries no
  lineage fields at all.
\<close>

theorem unknown_lineage_is_direct:
  assumes "checkPackage ignoreList packageName v db None config = Issue i"
  shows "(issue_isDirect i = Some True \<and> issue_isTransitive i = Some False
            \<and> issue_dependencyChain i = Some [])
         \<or> (issue_isDirect i = None \<and> issue_isTransitive i = None
            \<and> issue_dependencyChain i = None
            \<and> issue_action i = ''UPDATE TO SAFE VERSION IMMEDIATELY'')"
proof -
  let ?b = "baseIssue packageName v None"
  have b: "issue_isDirect ?b = Some True" "issue_isTransitive ?b = Some False"
    "issue_dependencyChain ?b = Some []"
    by (simp_all add: baseIssue_def)
  show ?thesis
  proof (cases "checkCampaigns ?b packageName v (campaigns db) = Issue i")
    case True
    from checkCampaigns_lineage[OF True] b show ?thesis by simp
  next
    case False
    with assms have "issue_isDirect i = Some True \<and> issue_isTransitive i = Some False
            \<and> issue_dependencyChain i = Some []"
      by (auto simp: checkPackage_def Let_def protestwareIssue_def baseIssue_def
               split: if_splits)
    then show ?thesis by simp
  qed
qed

theorem unknown_lineage_is_direct_witness:
  "\<exists>i. checkPackage [] ''dep-b'' ''2.0.0'' confirmedDb None noConfig = Issue i
       \<and> issue_isDirect i = Some True \<and> issue_isTransitive i = Some False
       \<and> issue_dependencyChain i = Some []"
proof -
  have e: "checkPackage [] ''dep-b'' ''2.0.0'' confirmedDb None noConfig
             = Issue ((baseIssue ''dep-b'' ''2.0.0'' None)
                    \<lparr> issue_severity := ''critical'',
                      issue_type := ''Confirmed Malicious'',
                      issue_reason := ''This package has been confirmed as malicious'',
                      issue_action := ''REMOVE IMMEDIATELY'' \<rparr>)"
    by (simp add: checkPackage_def Let_def isIgnored_def isTrusted_def noConfig_def
                  confirmedDb_def)
  from unknown_lineage_is_direct[OF e] show ?thesis
    unfolding e by simp
qed








subsection \<open>Graph builder\<close>

lemma map_of_mergeLockEntry_other:
  "fst e \<noteq> name \<Longrightarrow> map_of (mergeLockEntry e merged) name = map_of merged name"
  by (cases e) (auto simp: mergeLockEntry_def update_conv' split: option.splits)

lemma map_of_mergeLockEntry_same:
  "map_of merged name = Some node \<Longrightarrow>
     map_of (mergeLockEntry (name, info) merged) name
       = Some (node\<lparr> version := lock_version info \<rparr>)"
  by (simp add: mergeLockEntry_def update_conv')

lemma map_of_fold_mergeLockEntry_other:
  "name \<notin> fst ` set lock \<Longrightarrow>
     map_of (fold mergeLockEntry lock merged) name = map_of merged name"
  by (induction lock arbitrary: merged) (auto simp: map_of_mergeLockEntry_other)

lemma map_of_fold_mergeLockEntry_same:
  assumes "distinct (map fst lock)" and "map_of lock name = Some info"
    and "map_of merged name = Some node"
  shows "map_of (fold mergeLockEntry lock merged) name
           = Some (node\<lparr> version := lock_version info \<rparr>)"
  using assms
proof (induction lock arbitrary: merged)
  case Nil
  then show ?case by simp
next
  case (Cons e lock)
  obtain k i where e: "e = (k, i)" by (cases e)
  show ?case
  proof (cases "k = name")
    case True
    with Cons.prems e have i: "i = info" and notin: "name \<notin> fst ` set lock" by auto
    have "map_of (mergeLockEntry e merged) name = Some (node\<lparr> version := lock_version info \<rparr>)"
      unfolding e True i by (rule map_of_mergeLockEntry_same[OF Cons.prems(3)])
    then show ?thesis
      by (simp add: map_of_fold_mergeLockEntry_other[OF notin])
  next
    case False
    with Cons.prems e have d: "distinct (map fst lock)" and m: "map_of lock name = Some info"
      by auto
    have "map_of (mergeLockEntry e merged) name = Some node"
      using False Cons.prems(3) by (simp add: e map_of_mergeLockEntry_other)
    from Cons.IH[OF d m this] show ?thesis by simp
  qed
qed

lemma map_of_fold_directNode:
  "map_of (fold (\<lambda>(name, v) merged. AList.update name (f name v) merged) directDeps acc) name
     = (case map_of (rev directDeps) name of
          None \<Rightarrow> map_of acc name
        | Some v \<Rightarrow> Some (f name v))"
proof (induction directDeps arbitrary: acc)
  case Nil
  then show ?case by simp
next
  case (Cons e directDeps)
  obtain k v where e: "e = (k, v)" by (cases e)
  show ?case
    by (simp add: e Cons.IH update_conv' map_add_def split: option.splits)
qed

lemma map_of_directSeed:
  "map_of (directSeed directDeps) name = map_option directNode (map_of (rev directDeps) name)"
  unfolding directSeed_def
  using map_of_fold_directNode[of "\<lambda>_. directNode" directDeps "[]" name]
  by (simp split: option.splits)

text \<open>
  C5. A directly declared name that the lock entries also contain (a \<^verbatim>\<open>Map\<close> has
  distinct keys) is merged into the node the first loop created for it with only the
  version replaced by the lock version: isDirect stays true, isTransitive false, the
  chain empty.
\<close>

theorem merge_keeps_direct_identity:
  assumes "name \<in> fst ` set directDeps"
    and "distinct (map fst lockPackages)"
    and "map_of lockPackages name = Some info"
  shows "\<exists>seed. map_of (directSeed directDeps) name = Some seed
           \<and> isDirect seed \<and> \<not> isTransitive seed \<and> dependencyChain seed = []
           \<and> map_of (mergeDependencies directDeps lockPackages) name
               = Some (seed\<lparr> version := lock_version info \<rparr>)
           \<and> map_of (mergeDependencies directDeps lockPackages) name
               = Some \<lparr> version = lock_version info, isDirect = True, isTransitive = False,
                        dependencyChain = [] \<rparr>"
proof -
  from assms(1) have "name \<in> fst ` set (rev directDeps)" by simp
  then obtain v where v: "map_of (rev directDeps) name = Some v"
    by (metis domD dom_map_of_conv_image_fst)
  have seed: "map_of (directSeed directDeps) name = Some (directNode v)"
    by (simp add: map_of_directSeed v)
  have "map_of (mergeDependencies directDeps lockPackages) name
          = Some ((directNode v)\<lparr> version := lock_version info \<rparr>)"
    unfolding mergeDependencies_def
    by (rule map_of_fold_mergeLockEntry_same[OF assms(2,3) seed])
  with seed show ?thesis by (simp add: directNode_def)
qed

theorem merge_keeps_direct_identity_witness:
  "''dep-a'' \<in> fst ` set scenarioDirect
   \<and> distinct (map fst scenarioLock)
   \<and> map_of scenarioLock ''dep-a''
        = Some \<lparr> lock_version = ''1.2.0'', lock_isTransitive = True, lock_dependencyChain = [] \<rparr>
   \<and> map_of (mergeDependencies scenarioDirect scenarioLock) ''dep-a''
        = Some \<lparr> version = ''1.2.0'', isDirect = True, isTransitive = False,
                 dependencyChain = [] \<rparr>"
proof -
  have h1: "''dep-a'' \<in> fst ` set scenarioDirect"
    by (simp add: scenarioDirect_def)
  have h2: "distinct (map fst scenarioLock)"
    by (simp add: scenarioLock_def)
  have h3: "map_of scenarioLock ''dep-a''
        = Some \<lparr> lock_version = ''1.2.0'', lock_isTransitive = True, lock_dependencyChain = [] \<rparr>"
    by (simp add: scenarioLock_def)
  from merge_keeps_direct_identity[OF h1 h2 h3] h1 h2 h3 show ?thesis by auto
qed





lemma distinct_fold_update:
  "distinct (map fst acc) \<Longrightarrow>
     distinct (map fst (fold (\<lambda>(name, v) acc. AList.update name (g name v) acc) xs acc))"
  by (induction xs arbitrary: acc) (auto simp: distinct_update)

lemma distinct_directDependencies: "distinct (map fst (directDependencies pj))"
  unfolding directDependencies_def
  using distinct_fold_update[of "[]" "\<lambda>name v. v"] by (simp del: fold_append)










subsection \<open>Lock decoders\<close>

text \<open>
  C6. For the path key \<^verbatim>\<open>node_modules/a/node_modules/b\<close> the decoder records the name
  \<^verbatim>\<open>b\<close>, but the chain it stores is \<^verbatim>\<open>["node_modules/a"]\<close>, not \<^verbatim>\<open>["a"]\<close>: splitting
  on \<^verbatim>\<open>/node_modules/\<close> leaves the leading marker on the first piece, and the filter
  only drops pieces equal to \<^verbatim>\<open>node_modules\<close>.
\<close>

theorem npm_nested_chain_keeps_marker:
  "parseNpmLock (Some nestedNpmLock)
     = [(''b'', \<lparr> lock_version = JStr ''2.0.0'', lock_isTransitive = True,
                    lock_dependencyChain = [''node_modules/a''] \<rparr>)]
   \<and> extractDependencyChain ''node_modules/a/node_modules/b'' = [''node_modules/a'']
   \<and> extractDependencyChain ''node_modules/a/node_modules/b'' \<noteq> [''a'']"
  by code_simp

lemma distinct_setIfAbsent:
  "distinct (map fst packages) \<Longrightarrow> distinct (map fst (setIfAbsent name info packages))"
  by (simp add: setIfAbsent_def distinct_update)

lemma distinct_pnpmEntry:
  "distinct (map fst packages) \<Longrightarrow> distinct (map fst (pnpmEntry trimmed packages))"
  by (auto simp: pnpmEntry_def distinct_setIfAbsent split: option.splits list.splits)

lemma distinct_pnpmLine:
  "distinct (map fst (snd st)) \<Longrightarrow> distinct (map fst (snd (pnpmLine line st)))"
  by (cases st) (simp add: pnpmLine_def Let_def distinct_pnpmEntry)

lemma distinct_fold_pnpmLine:
  "distinct (map fst (snd st)) \<Longrightarrow> distinct (map fst (snd (fold pnpmLine ls st)))"
  by (induction ls arbitrary: st) (simp_all add: distinct_pnpmLine)

lemma distinct_fold_setIfAbsent:
  "distinct (map fst packages) \<Longrightarrow>
     distinct (map fst (fold (\<lambda>pkgName acc. setIfAbsent pkgName info acc) names packages))"
  by (induction names arbitrary: packages) (simp_all add: distinct_setIfAbsent)

lemma distinct_yarnLine:
  "distinct (map fst (snd st)) \<Longrightarrow> distinct (map fst (snd (yarnLine line st)))"
  by (cases st)
     (auto simp: yarnLine_def Let_def distinct_fold_setIfAbsent
           split: option.splits list.splits prod.splits)

lemma distinct_fold_yarnLine:
  "distinct (map fst (snd st)) \<Longrightarrow> distinct (map fst (snd (fold yarnLine ls st)))"
  by (induction ls arbitrary: st) (simp_all add: distinct_yarnLine)

lemma distinct_npmPackages:
  "distinct (map fst packages) \<Longrightarrow> distinct (map fst (snd (npmPackages es packages)))"
proof (induction es packages rule: npmPackages.induct)
  case (1 packages)
  then show ?case by simp
next
  case (2 pkgPath pkgInfo rest packages)
  then show ?case
    by (auto simp: distinct_update split: option.splits list.splits prod.splits)
qed

lemma distinct_parseNpmDependencies:
  "distinct (map fst packages) \<Longrightarrow>
     distinct (map fst (snd (parseNpmDependencies es packages chain)))"
proof (induction es packages chain rule: parseNpmDependencies.induct)
  case (1 packages chain)
  then show ?case by simp
next
  case (2 name info rest packages chain)
  let ?p1 = "AList.update name
                \<lparr> lock_version = orUnknown (getProp info ''version''),
                  lock_isTransitive = (length chain > 0),
                  lock_dependencyChain = chain \<rparr> packages"
  have d1: "distinct (map fst ?p1)" using "2.prems" by (simp add: distinct_update)
  show ?case
  proof (cases "info = JNull")
    case True
    then show ?thesis using "2.prems" by simp
  next
    case False
    show ?thesis
    proof (cases "getProp info ''dependencies''")
      case None
      with False "2.IH"(1)[OF False refl None d1] show ?thesis by (simp add: Let_def)
    next
      case (Some d)
      show ?thesis
      proof (cases "truthy d")
        case nt: False
        with False Some "2.IH"(4)[OF False refl Some nt d1] show ?thesis by (simp add: Let_def)
      next
        case t: True
        obtain threw p2 where r: "parseNpmDependencies (entries d) ?p1 (chain @ [name]) = (threw, p2)"
          by (cases "parseNpmDependencies (entries d) ?p1 (chain @ [name])")
        from "2.IH"(2)[OF False refl Some t d1] r have d2: "distinct (map fst p2)" by simp
        show ?thesis
        proof (cases threw)
          case True
          with False Some t r d2 show ?thesis by (simp add: Let_def)
        next
          case nthrew: False
          from "2.IH"(3)[OF False refl Some t r[symmetric] nthrew d2]
          show ?thesis using False Some t r nthrew by (simp add: Let_def)
        qed
      qed
    qed
  qed
qed

lemma distinct_npmTryBody: "distinct (map fst (snd (npmTryBody lockfile)))"
proof -
  have a: "distinct (map fst p)" if "npmPackages es [] = (t, p)" for es t p
    using distinct_npmPackages[of "[]" es] that by simp
  show ?thesis
    unfolding npmTryBody_def
    by (auto simp: distinct_parseNpmDependencies split: option.splits prod.splits dest: a)
qed

lemma pnpm_outside_section:
  "\<forall>line \<in> set ls. trim line \<noteq> ''packages:'' \<Longrightarrow>
     fold pnpmLine ls (False, packages) = (False, packages)"
  by (induction ls) (simp_all add: pnpmLine_def Let_def)

lemma yarn_no_version_line:
  "\<forall>line \<in> set ls. \<not> prefix ''  version'' line \<Longrightarrow>
     snd (fold yarnLine ls (current, packages)) = packages"
  by (induction ls arbitrary: current) (simp_all add: yarnLine_def Let_def)

lemma splitLines_empty: "splitLines [] = [ [] ]"
  by (simp add: splitLines_def)

text \<open>
  C7. The three decoders are total: the pnpm and the yarn decoder contain no operation
  that can raise on a string, and in the npm decoder every exception of the \<^verbatim>\<open>try\<close>
  body (a failed \<^verbatim>\<open>JSON.parse\<close>, a property read on \<^verbatim>\<open>null\<close>) ends in the \<^verbatim>\<open>catch\<close>,
  which returns the entries stored so far. For every input the result is a map (its
  keys are distinct). The empty file gives the empty map, and so does a pnpm file with
  no \<^verbatim>\<open>packages:\<close> line, a yarn file with no version line, and a JSON document with
  neither a truthy \<^verbatim>\<open>packages\<close> nor a truthy \<^verbatim>\<open>dependencies\<close> property.
\<close>

theorem decoders_never_fail:
  "distinct (map fst (parsePnpmLock content))
   \<and> distinct (map fst (parseYarnLock content))
   \<and> distinct (map fst (parseNpmLock parsed))
   \<and> parsePnpmLock [] = [] \<and> parseYarnLock [] = []
   \<and> parseNpmLock None = [] \<and> parseNpmLock (Some JNull) = []
   \<and> ((\<forall>line \<in> set (splitLines content). trim line \<noteq> ''packages:'')
         \<longrightarrow> parsePnpmLock content = [])
   \<and> ((\<forall>line \<in> set (splitLines content). \<not> prefix ''  version'' line)
         \<longrightarrow> parseYarnLock content = [])
   \<and> (\<not> truthyProp lockfile ''packages'' \<and> \<not> truthyProp lockfile ''dependencies''
         \<longrightarrow> parseNpmLock (Some lockfile) = [])
   \<and> (\<forall>threw packages. npmTryBody lockfile = (threw, packages)
         \<longrightarrow> parseNpmLock (Some lockfile) = packages)"
proof -
  have d1: "distinct (map fst (parsePnpmLock content))"
    unfolding parsePnpmLock_def by (rule distinct_fold_pnpmLine) simp
  have d2: "distinct (map fst (parseYarnLock content))"
    unfolding parseYarnLock_def by (rule distinct_fold_yarnLine) simp
  have d3: "distinct (map fst (parseNpmLock parsed))"
    by (cases parsed) (simp_all add: parseNpmLock_def distinct_npmTryBody)
  have e1: "parsePnpmLock [] = []"
    by (simp add: parsePnpmLock_def splitLines_empty pnpmLine_def trim_def)
  have e2: "parseYarnLock [] = []"
    by (simp add: parseYarnLock_def splitLines_empty yarnLine_def trim_def)
  have e3: "parseNpmLock None = []" "parseNpmLock (Some JNull) = []"
    by (simp_all add: parseNpmLock_def npmTryBody_def)
  have m1: "(\<forall>line \<in> set (splitLines content). trim line \<noteq> ''packages:'')
         \<longrightarrow> parsePnpmLock content = []"
    by (simp add: parsePnpmLock_def pnpm_outside_section)
  have m2: "(\<forall>line \<in> set (splitLines content). \<not> prefix ''  version'' line)
         \<longrightarrow> parseYarnLock content = []"
    by (simp add: parseYarnLock_def yarn_no_version_line)
  have m3: "\<not> truthyProp lockfile ''packages'' \<and> \<not> truthyProp lockfile ''dependencies''
         \<longrightarrow> parseNpmLock (Some lockfile) = []"
    by (simp add: parseNpmLock_def npmTryBody_def)
  have m4: "\<forall>threw packages. npmTryBody lockfile = (threw, packages)
         \<longrightarrow> parseNpmLock (Some lockfile) = packages"
    by (simp add: parseNpmLock_def)
  from d1 d2 d3 e1 e2 e3 m1 m2 m3 m4 show ?thesis by blast
qed

theorem decoders_never_fail_witness:
  "map trim (splitLines pnpmNoSection) = [''lockfileVersion: 6'', ''/foo@1.0.0:'', []]
   \<and> parsePnpmLock pnpmNoSection = []
   \<and> splitLines yarnNoVersion = [''# yarn lockfile v1'', ''foo@^1.0.0:'', ''  resolved x'', []]
   \<and> parseYarnLock yarnNoVersion = []
   \<and> \<not> truthyProp npmNoKeys ''packages'' \<and> \<not> truthyProp npmNoKeys ''dependencies''
   \<and> parseNpmLock (Some npmNoKeys) = []"
proof -
  have h1: "map trim (splitLines pnpmNoSection) = [''lockfileVersion: 6'', ''/foo@1.0.0:'', []]"
    by code_simp
  have h2: "splitLines yarnNoVersion
              = [''# yarn lockfile v1'', ''foo@^1.0.0:'', ''  resolved x'', []]"
    by code_simp
  have h3: "\<not> truthyProp npmNoKeys ''packages'' \<and> \<not> truthyProp npmNoKeys ''dependencies''"
    by (simp add: truthyProp_def npmNoKeys_def)
  have p1: "\<forall>line \<in> set (splitLines pnpmNoSection). trim line \<noteq> ''packages:''"
  proof
    fix line assume "line \<in> set (splitLines pnpmNoSection)"
    then have "trim line \<in> set (map trim (splitLines pnpmNoSection))" by simp
    then show "trim line \<noteq> ''packages:''" unfolding h1 by auto
  qed
  have p2: "\<forall>line \<in> set (splitLines yarnNoVersion). \<not> prefix ''  version'' line"
    unfolding h2 by simp
  from decoders_never_fail[of pnpmNoSection None npmNoKeys] p1 h3
  have a: "parsePnpmLock pnpmNoSection = []" "parseNpmLock (Some npmNoKeys) = []"
    by blast+
  from decoders_never_fail[of yarnNoVersion None npmNoKeys] p2
  have b: "parseYarnLock yarnNoVersion = []"
    by blast
  from h1 h2 h3 a b show ?thesis by blast
qed

subsection \<open>First successes of regular expressions\<close>





lemma rxFirst_One: "P c \<Longrightarrow> rxFirst (One P) (c # s, caps) = Some (s, caps)"
  by (simp add: rxFirst_def)



lemma rxFirst_Eps: "rxFirst Eps x = Some x"
  by (simp add: rxFirst_def)

lemma takeWhile_run:
  "\<forall>c \<in> set xs. P c \<Longrightarrow> rest = [] \<or> \<not> P (hd rest) \<Longrightarrow> takeWhile P (xs @ rest) = xs"
  by (cases rest) (auto simp: takeWhile_append)


lemma rxFirst_Many0:
  assumes "\<forall>c \<in> set xs. P c" and "rest = [] \<or> \<not> P (hd rest)"
  shows "rxFirst (Many0 P) (xs @ rest, caps) = Some (rest, caps)"
  by (simp add: rxFirst_def takeWhile_run[OF assms])




lemma rxm_Seq_fail: "rxm r1 x = [] \<Longrightarrow> rxm (Seq r1 r2) x = []"
  by simp






lemma isQuote_simps [simp]:
  "isQuote CHR 0x27" "isQuote CHR 0x22" "\<not> isQuote CHR ''/''" "\<not> isQuote CHR ''@''"
  "\<not> isQuote CHR '':''"
  by (simp_all add: isQuote_def)

lemma isSpace_simps [simp]:
  "isSpace CHR '' ''" "\<not> isSpace CHR ''/''" "\<not> isSpace CHR ''@''" "\<not> isSpace CHR '':''"
  "\<not> isSpace CHR 0x27" "\<not> isSpace CHR 0x22" "\<not> isSpace CHR ''v''"
  by (simp_all add: isSpace_def)

lemma length_scoped: "length (scoped scope name) = Suc (Suc (length scope + length name))"
  by (simp add: scoped_def)















subsection \<open>What a success of an expression says about the input\<close>











subsection \<open>Recorded names stay recorded\<close>












subsection \<open>Whole files\<close>











end
